theory Spec2Isabelle
  imports Main "HOL-Library.Multiset"
begin

section \<open>The outgoing-transfers view of the report tool\<close>

text \<open>
  Source: \<^verbatim>\<open>src/static/js/modules/worker_outgoing_transfers.js\<close>, the class
  \<^verbatim>\<open>WorkerOutgoingTransfersModule\<close> with its constructor and the methods
  \<^verbatim>\<open>legendOnToggle\<close>, \<^verbatim>\<open>initLegend\<close> and \<^verbatim>\<open>plot\<close>.

  The class is glue over three collaborators that are not part of the file: the base
  class \<^verbatim>\<open>BaseModule\<close> (\<^verbatim>\<open>base.js\<close>), the helpers \<^verbatim>\<open>escapeWorkerId\<close> and
  \<^verbatim>\<open>getWorkerColor\<close> (\<^verbatim>\<open>utils.js\<close>), and the JavaScript runtime with d3
  (\<^verbatim>\<open>Object.keys\<close>, \<^verbatim>\<open>Array.prototype.sort\<close>, \<^verbatim>\<open>localeCompare\<close>,
  \<^verbatim>\<open>selectAll\<close>, \<^verbatim>\<open>style\<close>). The helpers, \<^verbatim>\<open>localeCompare\<close> and the CSS selector
  engine behind \<^verbatim>\<open>selectAll\<close> (for every selector that is not a plain ID selector) are
  parameters of the model; the base class is modelled as far as the specification describes it, and
  every call the view makes on it is also written to a log, so that a statement about
  what the view requests does not depend on what the base class does with the request.
\<close>

subsection \<open>JavaScript values\<close>

text \<open>
  A field that may hold \<^verbatim>\<open>undefined\<close>, \<^verbatim>\<open>null\<close> or an object. The source tests
  \<^verbatim>\<open>!this.data\<close> and reads \<^verbatim>\<open>this.data.transfers\<close>, so both the truthiness and the
  property access of the two empty values are part of the model.
\<close>

datatype 'a js = Undefined | Null | Val 'a

datatype error = TypeError | SyntaxError

fun falsy :: "'a js \<Rightarrow> bool" where
  "falsy Undefined = True"
| "falsy Null = True"
| "falsy (Val v) = False"

subsection \<open>Data model\<close>

text \<open>
  The dataset is a JavaScript object from worker name to a point sequence. Its own
  enumerable string keys have one fixed order, the one both \<^verbatim>\<open>Object.keys\<close> and
  \<^verbatim>\<open>Object.entries\<close> follow, so the object is an association list in that order.
  The points are passed through untouched and stay a type parameter.
\<close>

type_synonym 'p transfers_obj = "(string \<times> 'p) list"

record 'p dataset =
  transfers :: "'p transfers_obj js"

record legendItem =
  item_id :: string
  label :: string
  color :: string

text \<open>The options object handed to \<^verbatim>\<open>plotPath\<close>.\<close>

record pathOptions =
  stroke :: string
  className :: string
  path_id :: string
  tooltipInnerHTML :: string

text \<open>
  A path element of the drawing surface: what it was drawn from, and its \<^verbatim>\<open>display\<close>
  style property (\<open>None\<close> when the property is unset, the default, visible state).
\<close>

record 'p element =
  elem_points :: 'p
  elem_opts :: pathOptions
  display :: "string option"

text \<open>
  The calls the view makes on its base class, in the order made. In the module state
  below, \<open>svg\<close> is the drawing surface \<^verbatim>\<open>this.svg\<close> as the list of its paths, and
  \<open>calls\<close> is the log of those calls.
\<close>

datatype 'p call =
    SetBottomScaleType string
  | SetLeftScaleType string
  | InitSVG
  | PlotPath 'p pathOptions
  | CreateLegendRow "legendItem list" string

record 'p module =
  mod_id :: string
  title :: string
  api_url :: string
  bottomScaleType :: "string js"
  leftScaleType :: "string js"
  data :: "'p dataset js"
  svg :: "'p element list"
  calls :: "'p call list"

text \<open>
  The imported helpers of \<^verbatim>\<open>utils.js\<close>, the string method \<^verbatim>\<open>localeCompare\<close>
  (negative, zero or positive) and the browser's \<^verbatim>\<open>querySelectorAll\<close>, as parameters.
  The last one is given the selector text and the attributes of the surface's paths in
  document order; it throws a SyntaxError on an invalid selector and otherwise says, by
  position, which paths match.
\<close>

record env =
  escapeWorkerId :: "string \<Rightarrow> string"
  getWorkerColor :: "string \<Rightarrow> nat \<Rightarrow> string"
  localeCompare :: "string \<Rightarrow> string \<Rightarrow> int"
  querySelectorAll :: "string \<Rightarrow> pathOptions list \<Rightarrow> error + (nat \<Rightarrow> bool)"

text \<open>
  A method either returns with the new state, or throws with the state it had reached.
\<close>

type_synonym 'p outcome = "(error \<times> 'p module) + 'p module"

subsection \<open>The base class\<close>

definition BaseModule :: "string \<Rightarrow> string \<Rightarrow> string \<Rightarrow> 'p module" where
  \<comment> \<open>Modelled from the spec: the constructor of \<^verbatim>\<open>BaseModule\<close> (\<^verbatim>\<open>base.js\<close>) is
      missing; a new module has no dataset, no scale configured and nothing drawn.\<close>
  "BaseModule i t u =
     \<lparr>mod_id = i, title = t, api_url = u, bottomScaleType = Undefined,
      leftScaleType = Undefined, data = Undefined, svg = [], calls = []\<rparr>"

definition setBottomScaleType :: "string \<Rightarrow> 'p module \<Rightarrow> 'p module" where
  \<comment> \<open>Modelled from the spec: \<^verbatim>\<open>setBottomScaleType\<close> (\<^verbatim>\<open>base.js\<close>) is missing; it
      configures the scale of the bottom axis in the shared chart configuration.\<close>
  "setBottomScaleType t m =
     m\<lparr>bottomScaleType := Val t, calls := calls m @ [SetBottomScaleType t]\<rparr>"

definition setLeftScaleType :: "string \<Rightarrow> 'p module \<Rightarrow> 'p module" where
  \<comment> \<open>Modelled from the spec: \<^verbatim>\<open>setLeftScaleType\<close> (\<^verbatim>\<open>base.js\<close>) is missing; it
      configures the scale of the left axis in the shared chart configuration.\<close>
  "setLeftScaleType t m =
     m\<lparr>leftScaleType := Val t, calls := calls m @ [SetLeftScaleType t]\<rparr>"

definition initSVG :: "'p module \<Rightarrow> 'p module" where
  \<comment> \<open>Modelled from the spec: \<^verbatim>\<open>initSVG\<close> (\<^verbatim>\<open>base.js\<close>) is missing; it initializes
      the drawing surface, and a render re-draws fully rather than patching, so the
      surface starts without paths.\<close>
  "initSVG m = m\<lparr>svg := [], calls := calls m @ [InitSVG]\<rparr>"

definition plotPath :: "'p \<Rightarrow> pathOptions \<Rightarrow> 'p module \<Rightarrow> 'p module" where
  \<comment> \<open>Modelled from the spec: \<^verbatim>\<open>plotPath\<close> (\<^verbatim>\<open>base.js\<close>) is missing; it draws one
      line path for the points with the given options, visible by default.\<close>
  "plotPath pts opts m =
     m\<lparr>svg := svg m @ [\<lparr>elem_points = pts, elem_opts = opts, display = None\<rparr>],
       calls := calls m @ [PlotPath pts opts]\<rparr>"

definition createLegendRow :: "legendItem list \<Rightarrow> string \<Rightarrow> 'p module \<Rightarrow> 'p module" where
  \<comment> \<open>Modelled from the spec: \<^verbatim>\<open>createLegendRow\<close> (\<^verbatim>\<open>base.js\<close>) is missing; it
      renders one legend row from the ordered items under the checkbox group name. The
      \<^verbatim>\<open>onToggle\<close> option of the source is always the closure over
      \<^verbatim>\<open>legendOnToggle\<close> and is the definition \<open>onToggle\<close> below.\<close>
  "createLegendRow items checkboxName m =
     m\<lparr>calls := calls m @ [CreateLegendRow items checkboxName]\<rparr>"

subsection \<open>The runtime: property access, key enumeration, sort, selections\<close>

fun get_transfers :: "'p dataset js \<Rightarrow> error + 'p transfers_obj js" where
  \<comment> \<open>\<^verbatim>\<open>this.data.transfers\<close>: reading a property of undefined or null throws.\<close>
  "get_transfers Undefined = Inl TypeError"
| "get_transfers Null = Inl TypeError"
| "get_transfers (Val d) = Inr (transfers d)"

fun Object_keys :: "'p transfers_obj js \<Rightarrow> error + string list" where
  \<comment> \<open>\<^verbatim>\<open>Object.keys\<close> throws on undefined and null.\<close>
  "Object_keys Undefined = Inl TypeError"
| "Object_keys Null = Inl TypeError"
| "Object_keys (Val ts) = Inr (map fst ts)"

fun Object_entries :: "'p transfers_obj js \<Rightarrow> error + (string \<times> 'p) list" where
  \<comment> \<open>\<^verbatim>\<open>Object.entries\<close> throws on undefined and null.\<close>
  "Object_entries Undefined = Inl TypeError"
| "Object_entries Null = Inl TypeError"
| "Object_entries (Val ts) = Inr ts"

fun map_idx :: "('a \<Rightarrow> nat \<Rightarrow> 'b) \<Rightarrow> 'a list \<Rightarrow> nat \<Rightarrow> 'b list" where
  \<comment> \<open>\<^verbatim>\<open>Array.prototype.map\<close> with the callback's index argument, counted from the
      given start.\<close>
  "map_idx f [] idx = []"
| "map_idx f (x # xs) idx = f x idx # map_idx f xs (Suc idx)"

fun sort_insert :: "('a \<Rightarrow> 'a \<Rightarrow> int) \<Rightarrow> 'a \<Rightarrow> 'a list \<Rightarrow> 'a list" where
  "sort_insert cmp x [] = [x]"
| "sort_insert cmp x (y # ys) =
     (if cmp x y \<le> 0 then x # y # ys else y # sort_insert cmp x ys)"

fun array_sort :: "('a \<Rightarrow> 'a \<Rightarrow> int) \<Rightarrow> 'a list \<Rightarrow> 'a list" where
  \<comment> \<open>\<^verbatim>\<open>Array.prototype.sort\<close> with a compare function: a stable sort. An element goes
      in front of the first later element it does not compare greater than.\<close>
  "array_sort cmp [] = []"
| "array_sort cmp (x # xs) = sort_insert cmp x (array_sort cmp xs)"

definition cssNameStart :: "char \<Rightarrow> bool" where
  \<comment> \<open>A character that may start a CSS identifier: an ASCII letter or the underscore.\<close>
  "cssNameStart c \<longleftrightarrow>
     (65 \<le> (of_char c :: nat) \<and> (of_char c :: nat) \<le> 90) \<or>
     (97 \<le> (of_char c :: nat) \<and> (of_char c :: nat) \<le> 122) \<or> c = CHR ''_''"

definition cssNameChar :: "char \<Rightarrow> bool" where
  \<comment> \<open>A character that may continue a CSS identifier: also a digit or the hyphen.\<close>
  "cssNameChar c \<longleftrightarrow>
     cssNameStart c \<or> (48 \<le> (of_char c :: nat) \<and> (of_char c :: nat) \<le> 57) \<or> c = CHR ''-''"

definition cssIdent :: "string \<Rightarrow> bool" where
  \<comment> \<open>Strings that are CSS identifiers without escapes. (CSS has more identifiers,
      with a leading hyphen, escapes or non-ASCII characters; they are left to the
      engine.)\<close>
  "cssIdent name = (case name of [] \<Rightarrow> False | c # cs \<Rightarrow> cssNameStart c \<and> list_all cssNameChar cs)"

definition cssSafe :: "string \<Rightarrow> bool" where
  \<comment> \<open>A sanitized identifier: only characters that need no escaping in a selector.\<close>
  "cssSafe i = list_all cssNameChar i"

definition selectAll :: "env \<Rightarrow> string \<Rightarrow> 'p element list \<Rightarrow> error + (nat \<Rightarrow> bool)" where
  \<comment> \<open>d3's \<^verbatim>\<open>selectAll\<close> on the surface, which hands the selector text to
      \<^verbatim>\<open>querySelectorAll\<close>. The text is parsed as CSS: a hash sign followed by an
      identifier is an ID selector, and selects the paths whose \<^verbatim>\<open>id\<close> is exactly that
      identifier (in a standards-mode document). Any other text, whether a selector list,
      a compound or complex selector or no selector at all, is the engine's to decide.\<close>
  "selectAll E selector s =
     (case selector of
        [] \<Rightarrow> querySelectorAll E selector (map elem_opts s)
      | c # name \<Rightarrow>
          if c = CHR ''#'' \<and> cssIdent name
          then Inr (\<lambda>k. path_id (elem_opts (s ! k)) = name)
          else querySelectorAll E selector (map elem_opts s))"

definition style_display :: "(nat \<Rightarrow> bool) \<Rightarrow> string option \<Rightarrow> 'p element list \<Rightarrow> 'p element list" where
  \<comment> \<open>d3's \<^verbatim>\<open>selection.style('display', v)\<close>: sets the property on every selected
      element (\<^verbatim>\<open>null\<close> removes it) and touches no other; on an empty selection it
      does nothing.\<close>
  "style_display sel v s =
     map (\<lambda>(k, e). if sel k then e\<lparr>display := v\<rparr> else e) (enumerate 0 s)"

subsection \<open>The view\<close>

definition constructor :: "string \<Rightarrow> string \<Rightarrow> string \<Rightarrow> 'p module" where
  "constructor i t u =
     setLeftScaleType ''linear'' (setBottomScaleType ''linear'' (BaseModule i t u))"

definition legendOnToggle :: "env \<Rightarrow> string \<Rightarrow> bool \<Rightarrow> 'p module \<Rightarrow> 'p outcome" where
  "legendOnToggle E i visible m =
     (case selectAll E (''#transfer-'' @ i) (svg m) of
        Inl e \<Rightarrow> Inl (e, m)
      | Inr path \<Rightarrow>
          Inr (m\<lparr>svg := style_display path (if visible then None else Some ''none'') (svg m)\<rparr>))"

definition onToggle :: "env \<Rightarrow> string \<Rightarrow> bool \<Rightarrow> 'p module \<Rightarrow> 'p outcome" where
  \<comment> \<open>The arrow function given to \<^verbatim>\<open>createLegendRow\<close>.\<close>
  "onToggle E i visible m = legendOnToggle E i visible m"

definition legendItems :: "env \<Rightarrow> string list \<Rightarrow> legendItem list" where
  \<comment> \<open>The \<^verbatim>\<open>map\<close> and \<^verbatim>\<open>sort\<close> over the keys in \<^verbatim>\<open>initLegend\<close>.\<close>
  "legendItems E keys =
     array_sort (\<lambda>a b. localeCompare E (label a) (label b))
       (map_idx (\<lambda>worker idx.
          \<lparr>item_id = escapeWorkerId E worker, label = worker,
           color = getWorkerColor E worker idx\<rparr>) keys 0)"

definition initLegend :: "env \<Rightarrow> 'p module \<Rightarrow> 'p outcome" where
  "initLegend E m =
     (case get_transfers (data m) of
        Inl e \<Rightarrow> Inl (e, m)
      | Inr t \<Rightarrow>
          (case Object_keys t of
             Inl e \<Rightarrow> Inl (e, m)
           | Inr keys \<Rightarrow> Inr (createLegendRow (legendItems E keys) ''outgoing-transfers'' m)))"

definition pathOptionsOf :: "env \<Rightarrow> string \<Rightarrow> nat \<Rightarrow> pathOptions" where
  \<comment> \<open>The options object built in the body of the \<^verbatim>\<open>forEach\<close> callback of \<^verbatim>\<open>plot\<close>.\<close>
  "pathOptionsOf E worker idx =
     (let safeId = escapeWorkerId E worker;
          color = getWorkerColor E worker idx
      in \<lparr>stroke = color, className = ''transfer-line'',
          path_id = ''transfer-'' @ safeId, tooltipInnerHTML = worker\<rparr>)"

fun plotEntries :: "env \<Rightarrow> (string \<times> 'p) list \<Rightarrow> nat \<Rightarrow> 'p module \<Rightarrow> 'p module" where
  \<comment> \<open>The \<^verbatim>\<open>forEach\<close> over the entries, from the given index on.\<close>
  "plotEntries E [] idx m = m"
| "plotEntries E ((worker, points) # rest) idx m =
     plotEntries E rest (Suc idx) (plotPath points (pathOptionsOf E worker idx) m)"

definition plot :: "env \<Rightarrow> 'p module \<Rightarrow> 'p outcome" where
  "plot E m =
     (if falsy (data m) then Inr m
      else
        (let m1 = initSVG m in
         case get_transfers (data m1) of
           Inl e \<Rightarrow> Inl (e, m1)
         | Inr t \<Rightarrow>
             (case Object_entries t of
                Inl e \<Rightarrow> Inl (e, m1)
              | Inr entries \<Rightarrow> Inr (plotEntries E entries 0 m1))))"

subsection \<open>Compare functions and a concrete instance of the parameters\<close>

text \<open>
  \<^verbatim>\<open>Array.prototype.sort\<close> promises a sorted result only for a consistent compare
  function: on the values sorted, any two are comparable and the comparison is transitive.
\<close>

definition consistent_on :: "'a set \<Rightarrow> ('a \<Rightarrow> 'a \<Rightarrow> int) \<Rightarrow> bool" where
  "consistent_on A cmp \<longleftrightarrow>
     (\<forall>a\<in>A. \<forall>b\<in>A. cmp a b \<le> 0 \<or> cmp b a \<le> 0) \<and>
     (\<forall>a\<in>A. \<forall>b\<in>A. \<forall>c\<in>A. cmp a b \<le> 0 \<longrightarrow> cmp b c \<le> 0 \<longrightarrow> cmp a c \<le> 0)"

text \<open>
  The statements below hold for every instance of the parameters. To evaluate them on
  inputs, one instance is fixed: comparison by character code, a sanitizer that replaces
  dots and colons, a palette of three colours indexed by position, and a selector engine
  that rejects whatever is not a plain ID selector. It stands for no particular
  \<^verbatim>\<open>utils.js\<close> or browser.
\<close>

fun compareCodeUnits :: "string \<Rightarrow> string \<Rightarrow> int" where
  "compareCodeUnits [] [] = 0"
| "compareCodeUnits [] (y # ys) = - 1"
| "compareCodeUnits (x # xs) [] = 1"
| "compareCodeUnits (x # xs) (y # ys) =
     (if (of_char x :: nat) < of_char y then - 1
      else if (of_char y :: nat) < of_char x then 1
      else compareCodeUnits xs ys)"

definition sample_env :: env where
  "sample_env =
     \<lparr>escapeWorkerId = map (\<lambda>c. if c = CHR ''.'' \<or> c = CHR '':'' then CHR ''_'' else c),
      getWorkerColor = (\<lambda>worker idx. [''red'', ''green'', ''blue''] ! (idx mod 3)),
      localeCompare = compareCodeUnits,
      querySelectorAll = (\<lambda>selector paths. Inl SyntaxError)\<rparr>"

text \<open>
  Lexicographic order by code unit is the order of \<open>compareCodeUnits\<close>. The order of
  \<^verbatim>\<open>localeCompare\<close> is the collation of the locale, which is another order. On strings
  of ASCII letters and digits the default collation compares the letters without regard
  to case first (digits before letters, a string before its extensions), and orders
  strings that differ in case only by their first difference, lowercase first. The model
  \<open>localeCompareAlnum\<close> is that comparison; it is used on such strings only.
\<close>

definition lowerChar :: "char \<Rightarrow> char" where
  "lowerChar c =
     (if 65 \<le> (of_char c :: nat) \<and> (of_char c :: nat) \<le> 90
      then char_of (of_char c + (32 :: nat)) else c)"

definition localeCompareAlnum :: "string \<Rightarrow> string \<Rightarrow> int" where
  "localeCompareAlnum a b =
     (let primary = compareCodeUnits (map lowerChar a) (map lowerChar b)
      in if primary \<noteq> 0 then primary else - compareCodeUnits a b)"

definition collation_env :: env where
  "collation_env = sample_env\<lparr>localeCompare := localeCompareAlnum\<rparr>"

definition new_module :: "nat list module" where
  "new_module = constructor ''worker-outgoing-transfers'' ''Outgoing Transfers'' ''/api/transfers''"

definition sample_transfers :: "(string \<times> nat list) list" where
  "sample_transfers = [(''w2'', [1, 2]), (''w1'', [3])]"

definition sample_module :: "nat list module" where
  "sample_module = new_module\<lparr>data := Val \<lparr>transfers = Val sample_transfers\<rparr>\<rparr>"

definition drawn_module :: "nat list module" where
  \<comment> \<open>The sample module after its two paths were drawn.\<close>
  "drawn_module = plotEntries sample_env sample_transfers 0 (initSVG sample_module)"

definition mixed_case_module :: "nat list module" where
  \<comment> \<open>A dataset whose two worker names differ in case.\<close>
  "mixed_case_module = new_module\<lparr>data := Val \<lparr>transfers = Val [(''B'', [1]), (''a'', [2])]\<rparr>\<rparr>"


section \<open>Auxiliary facts\<close>

subsection \<open>Indexed map, sort, legend items, drawn paths\<close>

lemma map_idx_enumerate: "map_idx f xs k = map (\<lambda>(i, x). f x i) (enumerate k xs)"
  by (induction xs arbitrary: k) simp_all

lemma length_map_idx: "length (map_idx f xs k) = length xs"
  by (simp add: map_idx_enumerate)

lemma nth_map_idx: "i < length xs \<Longrightarrow> map_idx f xs k ! i = f (xs ! i) (k + i)"
  by (simp add: map_idx_enumerate nth_enumerate_eq)

lemma in_set_map_idx: "y \<in> set (map_idx f xs 0) \<longleftrightarrow> (\<exists>i<length xs. y = f (xs ! i) i)"
proof
  assume "y \<in> set (map_idx f xs 0)"
  then obtain i where "i < length (map_idx f xs 0)" "map_idx f xs 0 ! i = y"
    by (auto simp: in_set_conv_nth)
  then show "\<exists>i<length xs. y = f (xs ! i) i"
    by (auto simp: length_map_idx nth_map_idx)
next
  assume "\<exists>i<length xs. y = f (xs ! i) i"
  then obtain i where i: "i < length xs" "y = f (xs ! i) i" by blast
  then have "map_idx f xs 0 ! i = y" by (simp add: nth_map_idx)
  then show "y \<in> set (map_idx f xs 0)"
    using i(1) by (metis length_map_idx nth_mem)
qed

lemma mset_sort_insert: "mset (sort_insert cmp x xs) = add_mset x (mset xs)"
  by (induction xs) simp_all

lemma mset_array_sort: "mset (array_sort cmp xs) = mset xs"
  by (induction xs) (simp_all add: mset_sort_insert)

lemma set_sort_insert: "set (sort_insert cmp x xs) = insert x (set xs)"
  using mset_sort_insert [of cmp x xs, THEN arg_cong, of set_mset] by simp

lemma set_array_sort: "set (array_sort cmp xs) = set xs"
  using mset_array_sort [of cmp xs, THEN arg_cong, of set_mset] by simp

lemma sorted_sort_insert:
  assumes "consistent_on A cmp" "x \<in> A" "set xs \<subseteq> A"
    and "sorted_wrt (\<lambda>a b. cmp a b \<le> 0) xs"
  shows "sorted_wrt (\<lambda>a b. cmp a b \<le> 0) (sort_insert cmp x xs)"
  using assms(3,4)
proof (induction xs)
  case Nil
  then show ?case by simp
next
  case (Cons y ys)
  show ?case
  proof (cases "cmp x y \<le> 0")
    case True
    have "cmp x z \<le> 0" if "z \<in> set ys" for z
    proof -
      have "cmp y z \<le> 0" using Cons.prems(2) that by simp
      moreover have "y \<in> A" "z \<in> A" using Cons.prems(1) that by auto
      ultimately show ?thesis
        using assms(1,2) True unfolding consistent_on_def by blast
    qed
    then show ?thesis using True Cons.prems(2) by simp
  next
    case False
    have "y \<in> A" using Cons.prems(1) by simp
    then have yx: "cmp y x \<le> 0"
      using assms(1,2) False unfolding consistent_on_def by blast
    have "sorted_wrt (\<lambda>a b. cmp a b \<le> 0) (sort_insert cmp x ys)"
      using Cons.IH Cons.prems by simp
    then show ?thesis using False yx Cons.prems(2) by (simp add: set_sort_insert)
  qed
qed

lemma sorted_array_sort:
  assumes "consistent_on A cmp" "set xs \<subseteq> A"
  shows "sorted_wrt (\<lambda>a b. cmp a b \<le> 0) (array_sort cmp xs)"
  using assms(2)
proof (induction xs)
  case Nil
  then show ?case by simp
next
  case (Cons x xs)
  then show ?case
    using sorted_sort_insert [OF assms(1), of x "array_sort cmp xs"]
    by (simp add: set_array_sort)
qed

lemma consistent_on_label:
  assumes "consistent_on K cmp"
  shows "consistent_on {it. label it \<in> K} (\<lambda>a b. cmp (label a) (label b))"
  using assms unfolding consistent_on_def by blast

lemma in_legendItems:
  "it \<in> set (legendItems E keys) \<longleftrightarrow>
     (\<exists>i<length keys. it = \<lparr>item_id = escapeWorkerId E (keys ! i), label = keys ! i,
        color = getWorkerColor E (keys ! i) i\<rparr>)"
  by (simp add: legendItems_def set_array_sort in_set_map_idx)

lemma labels_map_idx:
  "map label (map_idx (\<lambda>worker idx.
      \<lparr>item_id = escapeWorkerId E worker, label = worker,
       color = getWorkerColor E worker idx\<rparr>) keys k) = keys"
  by (induction keys arbitrary: k) simp_all

lemma labels_legendItems: "mset (map label (legendItems E keys)) = mset keys"
proof -
  let ?xs = "map_idx (\<lambda>worker idx.
      \<lparr>item_id = escapeWorkerId E worker, label = worker,
       color = getWorkerColor E worker idx\<rparr>) keys 0"
  have "mset (map label (legendItems E keys)) = image_mset label (mset (legendItems E keys))"
    by simp
  also have "\<dots> = image_mset label (mset ?xs)"
    by (simp only: legendItems_def mset_array_sort)
  also have "\<dots> = mset (map label ?xs)" by simp
  also have "\<dots> = mset keys" by (simp only: labels_map_idx)
  finally show ?thesis .
qed

lemma sorted_legendItems:
  assumes "consistent_on (set keys) (localeCompare E)"
  shows "sorted_wrt (\<lambda>a b. localeCompare E (label a) (label b) \<le> 0) (legendItems E keys)"
  unfolding legendItems_def
proof (rule sorted_array_sort [OF consistent_on_label [OF assms]])
  show "set (map_idx (\<lambda>worker idx.
      \<lparr>item_id = escapeWorkerId E worker, label = worker,
       color = getWorkerColor E worker idx\<rparr>) keys 0) \<subseteq> {it. label it \<in> set keys}"
  proof
    fix it
    assume "it \<in> set (map_idx (\<lambda>worker idx.
      \<lparr>item_id = escapeWorkerId E worker, label = worker,
       color = getWorkerColor E worker idx\<rparr>) keys 0)"
    then obtain i where "i < length keys" "label it = keys ! i"
      unfolding in_set_map_idx by auto
    then show "it \<in> {it. label it \<in> set keys}" by simp
  qed
qed

lemma plotEntries_eq:
  "plotEntries E ts k m =
     m\<lparr>svg := svg m @ map (\<lambda>(i, (w, pts)).
               \<lparr>elem_points = pts, elem_opts = pathOptionsOf E w i, display = None\<rparr>) (enumerate k ts),
       calls := calls m @ map (\<lambda>(i, (w, pts)). PlotPath pts (pathOptionsOf E w i)) (enumerate k ts)\<rparr>"
  by (induction ts arbitrary: k m) (auto simp: plotPath_def)

lemma plot_dataset:
  assumes "data m = Val d" "transfers d = Val ts"
  shows "plot E m = Inr (plotEntries E ts 0 (initSVG m))"
  using assms by (simp add: plot_def initSVG_def)

lemma initLegend_dataset:
  assumes "data m = Val d" "transfers d = Val ts"
  shows "initLegend E m =
    Inr (m\<lparr>calls := calls m @ [CreateLegendRow (legendItems E (map fst ts)) ''outgoing-transfers'']\<rparr>)"
  using assms by (simp add: initLegend_def createLegendRow_def)

lemma svg_plot:
  "svg (plotEntries E ts 0 (initSVG m)) =
     map (\<lambda>(i, (w, pts)).
       \<lparr>elem_points = pts, elem_opts = pathOptionsOf E w i, display = None\<rparr>) (enumerate 0 ts)"
  by (simp add: plotEntries_eq initSVG_def)


lemma nth_svg_plot:
  assumes "i < length ts"
  shows "svg (plotEntries E ts 0 (initSVG m)) ! i =
     \<lparr>elem_points = snd (ts ! i), elem_opts = pathOptionsOf E (fst (ts ! i)) i, display = None\<rparr>"
  using assms by (simp add: svg_plot nth_enumerate_eq split_def)



subsection \<open>Selections\<close>

lemma cssIdent_transfer: "cssSafe i \<Longrightarrow> cssIdent (''transfer-'' @ i)"
  by (simp add: cssSafe_def cssIdent_def cssNameStart_def cssNameChar_def)

lemma selectAll_transfer:
  assumes "cssSafe i"
  shows "selectAll E (''#transfer-'' @ i) s =
     Inr (\<lambda>k. path_id (elem_opts (s ! k)) = ''transfer-'' @ i)"
proof -
  have "''#transfer-'' @ i = CHR ''#'' # (''transfer-'' @ i)" by simp
  then show ?thesis
    using cssIdent_transfer [OF assms] by (simp only: selectAll_def list.case) simp
qed

lemma selectAll_engine:
  assumes "\<not> cssSafe i"
  shows "selectAll E (''#transfer-'' @ i) s =
     querySelectorAll E (''#transfer-'' @ i) (map elem_opts s)"
proof -
  have "\<not> cssIdent (''transfer-'' @ i)"
    using assms by (simp add: cssSafe_def cssIdent_def)
  moreover have "''#transfer-'' @ i = CHR ''#'' # (''transfer-'' @ i)" by simp
  ultimately show ?thesis by (simp only: selectAll_def list.case) simp
qed

lemma legendOnToggle_engine_throws:
  assumes "\<not> cssSafe i"
    and "querySelectorAll E (''#transfer-'' @ i) (map elem_opts (svg m)) = Inl e"
  shows "legendOnToggle E i visible m = Inl (e, m)"
  by (simp only: legendOnToggle_def selectAll_engine [OF assms(1)] assms(2) sum.case)

lemma length_style_display: "length (style_display sel v s) = length s"
  by (simp add: style_display_def)

lemma nth_style_display:
  "k < length s \<Longrightarrow>
     style_display sel v s ! k = (if sel k then (s ! k)\<lparr>display := v\<rparr> else s ! k)"
  by (simp add: style_display_def nth_enumerate_eq)

lemma style_display_none_selected:
  assumes "\<forall>k<length s. \<not> sel k"
  shows "style_display sel v s = s"
  by (rule nth_equalityI) (simp_all add: length_style_display nth_style_display assms)


lemma legendOnToggle_safe:
  assumes "cssSafe i"
  shows "legendOnToggle E i visible m =
     Inr (m\<lparr>svg := style_display (\<lambda>k. path_id (elem_opts (svg m ! k)) = ''transfer-'' @ i)
       (if visible then None else Some ''none'') (svg m)\<rparr>)"
  by (simp only: legendOnToggle_def selectAll_transfer [OF assms] sum.case)

subsection \<open>The sample inputs\<close>

lemma data_new_module: "data new_module = Undefined"
  by (simp add: new_module_def constructor_def BaseModule_def setBottomScaleType_def
      setLeftScaleType_def)

lemma data_sample: "data sample_module = Val \<lparr>transfers = Val sample_transfers\<rparr>"
  by (simp add: sample_module_def)

lemma transfers_sample:
  "transfers \<lparr>transfers = Val sample_transfers\<rparr> = Val sample_transfers"
  by simp

lemma svg_drawn_module:
  "svg drawn_module =
     [\<lparr>elem_points = [1, 2],
       elem_opts = \<lparr>stroke = ''red'', className = ''transfer-line'',
                    path_id = ''transfer-w2'', tooltipInnerHTML = ''w2''\<rparr>,
       display = None\<rparr>,
      \<lparr>elem_points = [3],
       elem_opts = \<lparr>stroke = ''green'', className = ''transfer-line'',
                    path_id = ''transfer-w1'', tooltipInnerHTML = ''w1''\<rparr>,
       display = None\<rparr>]"
  by (simp add: drawn_module_def sample_transfers_def plotPath_def initSVG_def pathOptionsOf_def sample_env_def)

section \<open>Properties\<close>

subsection \<open>Without a dataset\<close>

text \<open>
  C1 says that \<^verbatim>\<open>initLegend\<close> is skipped when no dataset is set. The method has no
  such guard, unlike \<^verbatim>\<open>plot\<close>: it reads \<^verbatim>\<open>this.data.transfers\<close> first, which
  throws a TypeError on an undefined or null \<^verbatim>\<open>this.data\<close>, before any legend row is
  requested. The theorem evaluates the method on such a module.
\<close>

theorem initLegend_without_dataset_throws:
  "initLegend E (m\<lparr>data := Undefined\<rparr>) = Inl (TypeError, m\<lparr>data := Undefined\<rparr>) \<and>
   initLegend E (m\<lparr>data := Null\<rparr>) = Inl (TypeError, m\<lparr>data := Null\<rparr>)"
  by (simp add: initLegend_def)

text \<open>
  C2. When no dataset is present (\<^verbatim>\<open>this.data\<close> undefined or null), \<^verbatim>\<open>plot\<close> returns
  normally with the module exactly as it was: the surface and the call log are unchanged,
  so neither \<^verbatim>\<open>initSVG\<close> nor \<^verbatim>\<open>plotPath\<close> was called.
\<close>

theorem plot_without_dataset:
  "data m = Undefined \<or> data m = Null \<Longrightarrow> plot E m = Inr m"
  by (auto simp: plot_def)

theorem plot_without_dataset_witness:
  "data new_module = Undefined \<and> plot sample_env new_module = Inr new_module"
  using plot_without_dataset [of new_module sample_env] data_new_module by simp

subsection \<open>Legend and paths of a dataset\<close>

text \<open>
  C3, as amended. For every dataset, in whatever order its keys are enumerated,
  \<^verbatim>\<open>initLegend\<close> requests one legend row whose items are, as a multiset of labels,
  exactly the worker keys (one item per key), each item carrying the sanitized identifier
  of its label, and the item list is sorted ascending by label in the order of
  \<^verbatim>\<open>localeCompare\<close>, the collation of the locale, which is not the lexicographic
  order of the code units. The compare function is a parameter, assumed consistent on the
  worker names, which is what \<^verbatim>\<open>Array.prototype.sort\<close> needs to promise a sorted
  result.
\<close>

theorem initLegend_items_sorted:
  assumes "data m = Val d" "transfers d = Val ts"
    and "consistent_on (fst ` set ts) (localeCompare E)"
  shows "initLegend E m =
      Inr (m\<lparr>calls := calls m @
        [CreateLegendRow (legendItems E (map fst ts)) ''outgoing-transfers'']\<rparr>) \<and>
    mset (map label (legendItems E (map fst ts))) = mset (map fst ts) \<and>
    (\<forall>it\<in>set (legendItems E (map fst ts)). item_id it = escapeWorkerId E (label it)) \<and>
    sorted_wrt (\<lambda>a b. localeCompare E (label a) (label b) \<le> 0) (legendItems E (map fst ts))"
proof -
  have "consistent_on (set (map fst ts)) (localeCompare E)"
    using assms(3) by simp
  then have "sorted_wrt (\<lambda>a b. localeCompare E (label a) (label b) \<le> 0)
      (legendItems E (map fst ts))"
    by (rule sorted_legendItems)
  moreover have "\<forall>it\<in>set (legendItems E (map fst ts)). item_id it = escapeWorkerId E (label it)"
    by (auto simp: in_legendItems)
  ultimately show ?thesis
    using initLegend_dataset [OF assms(1,2)] labels_legendItems by blast
qed

theorem initLegend_items_sorted_witness:
  "initLegend collation_env sample_module =
     Inr (sample_module\<lparr>calls := calls sample_module @
       [CreateLegendRow
          [\<lparr>item_id = ''w1'', label = ''w1'', color = ''green''\<rparr>,
           \<lparr>item_id = ''w2'', label = ''w2'', color = ''red''\<rparr>]
          ''outgoing-transfers'']\<rparr>) \<and>
   mset (map label (legendItems collation_env (map fst sample_transfers))) =
     mset (map fst sample_transfers) \<and>
   sorted_wrt (\<lambda>a b. localeCompare collation_env (label a) (label b) \<le> 0)
     (legendItems collation_env (map fst sample_transfers))"
proof -
  have c: "consistent_on (fst ` set sample_transfers) (localeCompare collation_env)"
    by (simp add: consistent_on_def sample_transfers_def collation_env_def
        localeCompareAlnum_def lowerChar_def)
  have l: "legendItems collation_env (map fst sample_transfers) =
      [\<lparr>item_id = ''w1'', label = ''w1'', color = ''green''\<rparr>,
       \<lparr>item_id = ''w2'', label = ''w2'', color = ''red''\<rparr>]"
    by (simp add: legendItems_def sample_transfers_def collation_env_def sample_env_def
        localeCompareAlnum_def lowerChar_def)
  from initLegend_items_sorted [OF data_sample transfers_sample c]
  have r: "initLegend collation_env sample_module =
      Inr (sample_module\<lparr>calls := calls sample_module @
        [CreateLegendRow (legendItems collation_env (map fst sample_transfers))
           ''outgoing-transfers'']\<rparr>)"
    "mset (map label (legendItems collation_env (map fst sample_transfers))) =
      mset (map fst sample_transfers)"
    "sorted_wrt (\<lambda>a b. localeCompare collation_env (label a) (label b) \<le> 0)
      (legendItems collation_env (map fst sample_transfers))"
    by blast+
  from r(1) have "initLegend collation_env sample_module =
     Inr (sample_module\<lparr>calls := calls sample_module @
       [CreateLegendRow
          [\<lparr>item_id = ''w1'', label = ''w1'', color = ''green''\<rparr>,
           \<lparr>item_id = ''w2'', label = ''w2'', color = ''red''\<rparr>]
          ''outgoing-transfers'']\<rparr>)"
    by (simp only: l)
  with r(2,3) show ?thesis by blast
qed

text \<open>
  C3 as stated, with the list sorted lexicographically, fails on the worker names
  \<^verbatim>\<open>B\<close> and \<^verbatim>\<open>a\<close>: \<^verbatim>\<open>localeCompare\<close> puts \<^verbatim>\<open>a\<close> first, and the legend shows
  \<^verbatim>\<open>a\<close> before \<^verbatim>\<open>B\<close>, while by code units \<^verbatim>\<open>a\<close> is the greater of the two.
\<close>

theorem initLegend_not_lexicographic:
  "initLegend collation_env mixed_case_module =
     Inr (mixed_case_module\<lparr>calls := calls mixed_case_module @
       [CreateLegendRow
          [\<lparr>item_id = ''a'', label = ''a'', color = ''green''\<rparr>,
           \<lparr>item_id = ''B'', label = ''B'', color = ''red''\<rparr>]
          ''outgoing-transfers'']\<rparr>) \<and>
   0 < compareCodeUnits ''a'' ''B''"
  by (simp add: initLegend_def createLegendRow_def mixed_case_module_def legendItems_def
      collation_env_def sample_env_def localeCompareAlnum_def lowerChar_def)




subsection \<open>Toggling a legend item\<close>

text \<open>
  C5. For a sanitized identifier, one made of characters that need no escaping in a CSS
  selector, so that \<^verbatim>\<open>#transfer-\<close> followed by it is a plain ID selector: when no path
  of the surface has the identifier \<^verbatim>\<open>transfer-\<close> followed by the given one,
  \<^verbatim>\<open>legendOnToggle\<close> with either boolean throws nothing, returns, and leaves the
  module, and so the display state of every path, as it was.
\<close>

theorem legendOnToggle_unknown_id:
  assumes "cssSafe i"
    and "\<forall>e\<in>set (svg m). path_id (elem_opts e) \<noteq> ''transfer-'' @ i"
  shows "legendOnToggle E i visible m = Inr m"
proof -
  have "\<forall>k<length (svg m). \<not> path_id (elem_opts (svg m ! k)) = ''transfer-'' @ i"
    using assms(2) by simp
  then have "style_display (\<lambda>k. path_id (elem_opts (svg m ! k)) = ''transfer-'' @ i) v (svg m)
      = svg m" for v
    by (rule style_display_none_selected)
  then show ?thesis by (simp add: legendOnToggle_safe [OF assms(1)])
qed

theorem legendOnToggle_unknown_id_witness:
  "cssSafe ''w9'' \<and>
   map (\<lambda>e. path_id (elem_opts e)) (svg drawn_module) = [''transfer-w2'', ''transfer-w1''] \<and>
   legendOnToggle sample_env ''w9'' False drawn_module = Inr drawn_module \<and>
   legendOnToggle sample_env ''w9'' True drawn_module = Inr drawn_module"
proof -
  have c: "cssSafe ''w9''"
    by (simp add: cssSafe_def cssNameChar_def cssNameStart_def)
  have h: "\<forall>e\<in>set (svg drawn_module). path_id (elem_opts e) \<noteq> ''transfer-'' @ ''w9''"
    by (simp add: svg_drawn_module)
  have "map (\<lambda>e. path_id (elem_opts e)) (svg drawn_module) = [''transfer-w2'', ''transfer-w1'']"
    by (simp add: svg_drawn_module)
  with c legendOnToggle_unknown_id [OF c h, of sample_env False]
    legendOnToggle_unknown_id [OF c h, of sample_env True]
  show ?thesis by simp
qed



subsection \<open>Construction, the empty dataset, colours, a missing transfers field\<close>

text \<open>
  C7. The constructor configures both chart axes, bottom and left, to the linear scale:
  after it both scale types are \<^verbatim>\<open>'linear'\<close>, and the two setter calls with
  \<^verbatim>\<open>'linear'\<close> are the only configuration it requested, so no log or time scale is
  applied.
\<close>

theorem constructor_linear_scales:
  "bottomScaleType (constructor i t u) = Val ''linear'' \<and>
   leftScaleType (constructor i t u) = Val ''linear'' \<and>
   calls (constructor i t u) = [SetBottomScaleType ''linear'', SetLeftScaleType ''linear'']"
  by (simp add: constructor_def BaseModule_def setBottomScaleType_def setLeftScaleType_def)

text \<open>
  C8. On the empty dataset both methods return normally: \<^verbatim>\<open>plot\<close> initializes the
  surface and draws no path (no \<^verbatim>\<open>plotPath\<close> call), and \<^verbatim>\<open>initLegend\<close> requests a
  legend row with no item.
\<close>

theorem empty_dataset_draws_nothing:
  assumes "data m = Val d" "transfers d = Val []"
  shows "plot E m = Inr (m\<lparr>svg := [], calls := calls m @ [InitSVG]\<rparr>) \<and>
     initLegend E m = Inr (m\<lparr>calls := calls m @ [CreateLegendRow [] ''outgoing-transfers'']\<rparr>)"
  using plot_dataset [OF assms, of E] initLegend_dataset [OF assms, of E]
  by (simp add: initSVG_def legendItems_def)

theorem empty_dataset_draws_nothing_witness:
  "data (new_module\<lparr>data := Val \<lparr>transfers = Val []\<rparr>\<rparr>) = Val \<lparr>transfers = Val []\<rparr> \<and>
   plot sample_env (new_module\<lparr>data := Val \<lparr>transfers = Val []\<rparr>\<rparr>) =
     Inr (new_module\<lparr>data := Val \<lparr>transfers = Val []\<rparr>, svg := [],
            calls := calls new_module @ [InitSVG]\<rparr>) \<and>
   initLegend sample_env (new_module\<lparr>data := Val \<lparr>transfers = Val []\<rparr>\<rparr>) =
     Inr (new_module\<lparr>data := Val \<lparr>transfers = Val []\<rparr>,
            calls := calls new_module @ [CreateLegendRow [] ''outgoing-transfers'']\<rparr>)"
  using empty_dataset_draws_nothing
    [of "new_module\<lparr>data := Val \<lparr>transfers = Val []\<rparr>\<rparr>" "\<lparr>transfers = Val []\<rparr>" sample_env]
  by simp

text \<open>
  C9. For every dataset (its keys distinct, as the keys of an object are), the legend
  item and the path of the \<open>i\<close>-th worker both carry \<^verbatim>\<open>getWorkerColor(worker, i)\<close>, since
  \<^verbatim>\<open>Object.keys\<close> and \<^verbatim>\<open>Object.entries\<close> enumerate the keys in the same order;
  hence whenever a legend item and a drawn path belong to the same worker, the item's
  colour equals the path's stroke, although the legend is sorted afterwards.
\<close>

theorem legend_color_is_stroke:
  assumes "data m = Val d" "transfers d = Val ts" "distinct (map fst ts)"
  shows "\<exists>items mp.
     initLegend E m = Inr (m\<lparr>calls := calls m @ [CreateLegendRow items ''outgoing-transfers'']\<rparr>) \<and>
     plot E m = Inr mp \<and>
     (\<forall>i<length ts.
        \<lparr>item_id = escapeWorkerId E (fst (ts ! i)), label = fst (ts ! i),
         color = getWorkerColor E (fst (ts ! i)) i\<rparr> \<in> set items \<and>
        tooltipInnerHTML (elem_opts (svg mp ! i)) = fst (ts ! i) \<and>
        stroke (elem_opts (svg mp ! i)) = getWorkerColor E (fst (ts ! i)) i) \<and>
     (\<forall>it\<in>set items. \<forall>p\<in>set (svg mp).
        label it = tooltipInnerHTML (elem_opts p) \<longrightarrow> color it = stroke (elem_opts p))"
proof -
  let ?items = "legendItems E (map fst ts)"
  let ?mp = "plotEntries E ts 0 (initSVG m)"
  have a: "\<forall>i<length ts.
        \<lparr>item_id = escapeWorkerId E (fst (ts ! i)), label = fst (ts ! i),
         color = getWorkerColor E (fst (ts ! i)) i\<rparr> \<in> set ?items \<and>
        tooltipInnerHTML (elem_opts (svg ?mp ! i)) = fst (ts ! i) \<and>
        stroke (elem_opts (svg ?mp ! i)) = getWorkerColor E (fst (ts ! i)) i"
    by (auto simp: in_legendItems nth_svg_plot pathOptionsOf_def)
  have b: "color it = stroke (elem_opts p)"
    if "it \<in> set ?items" "p \<in> set (svg ?mp)" "label it = tooltipInnerHTML (elem_opts p)"
    for it p
  proof -
    from that(1) obtain i where i: "i < length ts"
      "it = \<lparr>item_id = escapeWorkerId E (fst (ts ! i)), label = fst (ts ! i),
         color = getWorkerColor E (fst (ts ! i)) i\<rparr>"
      unfolding in_legendItems by auto
    from that(2) obtain j where j: "j < length ts" "p = svg ?mp ! j"
      by (auto simp: in_set_conv_nth svg_plot)
    have "fst (ts ! i) = fst (ts ! j)"
      using that(3) i j by (simp add: nth_svg_plot pathOptionsOf_def)
    then have "map fst ts ! i = map fst ts ! j" using i(1) j(1) by simp
    moreover have "(map fst ts ! i = map fst ts ! j) = (i = j)"
      by (rule nth_eq_iff_index_eq) (use assms(3) i(1) j(1) in simp_all)
    ultimately have "i = j" by simp
    then show ?thesis using i j by (simp add: nth_svg_plot pathOptionsOf_def)
  qed
  from initLegend_dataset [OF assms(1,2), of E] plot_dataset [OF assms(1,2), of E] a b
  show ?thesis by blast
qed

theorem legend_color_is_stroke_witness:
  "distinct (map fst sample_transfers) \<and>
   (\<exists>items mp.
      initLegend sample_env sample_module =
        Inr (sample_module\<lparr>calls := calls sample_module @
          [CreateLegendRow items ''outgoing-transfers'']\<rparr>) \<and>
      plot sample_env sample_module = Inr mp \<and>
      \<lparr>item_id = ''w1'', label = ''w1'', color = ''green''\<rparr> \<in> set items \<and>
      tooltipInnerHTML (elem_opts (svg mp ! 1)) = ''w1'' \<and>
      stroke (elem_opts (svg mp ! 1)) = ''green'')"
proof -
  have d: "distinct (map fst sample_transfers)"
    by (simp add: sample_transfers_def)
  have k: "1 < length sample_transfers" "fst (sample_transfers ! 1) = ''w1''"
    by (simp_all add: sample_transfers_def)
  have e: "escapeWorkerId sample_env ''w1'' = ''w1''" "getWorkerColor sample_env ''w1'' 1 = ''green''"
    by (simp_all add: sample_env_def)
  from legend_color_is_stroke [OF data_sample transfers_sample d, of sample_env]
  obtain items mp where r:
    "initLegend sample_env sample_module =
        Inr (sample_module\<lparr>calls := calls sample_module @
          [CreateLegendRow items ''outgoing-transfers'']\<rparr>)"
    "plot sample_env sample_module = Inr mp"
    "\<forall>i<length sample_transfers.
        \<lparr>item_id = escapeWorkerId sample_env (fst (sample_transfers ! i)),
         label = fst (sample_transfers ! i),
         color = getWorkerColor sample_env (fst (sample_transfers ! i)) i\<rparr> \<in> set items \<and>
        tooltipInnerHTML (elem_opts (svg mp ! i)) = fst (sample_transfers ! i) \<and>
        stroke (elem_opts (svg mp ! i)) = getWorkerColor sample_env (fst (sample_transfers ! i)) i"
    by blast
  from r(3) k(1) have
    "\<lparr>item_id = escapeWorkerId sample_env (fst (sample_transfers ! 1)),
         label = fst (sample_transfers ! 1),
         color = getWorkerColor sample_env (fst (sample_transfers ! 1)) 1\<rparr> \<in> set items \<and>
        tooltipInnerHTML (elem_opts (svg mp ! 1)) = fst (sample_transfers ! 1) \<and>
        stroke (elem_opts (svg mp ! 1)) = getWorkerColor sample_env (fst (sample_transfers ! 1)) 1"
    by blast
  then have
    "\<lparr>item_id = ''w1'', label = ''w1'', color = ''green''\<rparr> \<in> set items \<and>
     tooltipInnerHTML (elem_opts (svg mp ! 1)) = ''w1'' \<and>
     stroke (elem_opts (svg mp ! 1)) = ''green''"
    by (simp only: k(2) e)
  with d r(1,2) show ?thesis by blast
qed

text \<open>
  C10. When \<^verbatim>\<open>this.data\<close> is an object whose \<^verbatim>\<open>transfers\<close> is undefined or null,
  the guard of \<^verbatim>\<open>plot\<close> lets it pass (the object is truthy): \<^verbatim>\<open>plot\<close> initializes
  the surface and then throws a TypeError in \<^verbatim>\<open>Object.entries\<close>, and
  \<^verbatim>\<open>initLegend\<close> throws a TypeError in \<^verbatim>\<open>Object.keys\<close>; neither is a silent
  no-op.
\<close>

theorem missing_transfers_throws:
  assumes "data m = Val d" "transfers d = Undefined \<or> transfers d = Null"
  shows "\<not> falsy (data m) \<and> plot E m = Inl (TypeError, initSVG m) \<and>
     initLegend E m = Inl (TypeError, m)"
  using assms by (auto simp: plot_def initLegend_def initSVG_def)

theorem missing_transfers_throws_witness:
  "data (new_module\<lparr>data := Val \<lparr>transfers = Undefined\<rparr>\<rparr>) = Val \<lparr>transfers = Undefined\<rparr> \<and>
   plot sample_env (new_module\<lparr>data := Val \<lparr>transfers = Undefined\<rparr>\<rparr>) =
     Inl (TypeError, initSVG (new_module\<lparr>data := Val \<lparr>transfers = Undefined\<rparr>\<rparr>)) \<and>
   initLegend sample_env (new_module\<lparr>data := Val \<lparr>transfers = Undefined\<rparr>\<rparr>) =
     Inl (TypeError, new_module\<lparr>data := Val \<lparr>transfers = Undefined\<rparr>\<rparr>)"
  using missing_transfers_throws
    [of "new_module\<lparr>data := Val \<lparr>transfers = Undefined\<rparr>\<rparr>" "\<lparr>transfers = Undefined\<rparr>" sample_env]
  by simp

end
